theory Spec2Isabelle
  imports Complex_Main
begin

section \<open>Numbers of the pricing input\<close>

text \<open>
  The pricing code of \<^verbatim>\<open>quotationService\<close> computes with JavaScript numbers. They are
  modelled as exact reals: the rounding and the overflow of IEEE doubles are outside this
  model, and so are the infinities; the rounding is modelled for the GST step alone, in a
  subsection of its own. A numeric property that the code reads through a
  truthiness test (\<^verbatim>\<open>!x\<close>, \<^verbatim>\<open>x || d\<close>) may be absent (\<open>None\<close>) or \<^verbatim>\<open>NaN\<close>
  besides being a number, since the test treats the three falsy cases alike.
\<close>

datatype jsnumber = NaN | Num real

text \<open>Truthiness of an optional numeric property: \<^verbatim>\<open>undefined\<close>, \<^verbatim>\<open>NaN\<close> and \<^verbatim>\<open>0\<close> are falsy.\<close>

fun truthy_number :: "jsnumber option \<Rightarrow> bool" where
  "truthy_number None = False"
| "truthy_number (Some NaN) = False"
| "truthy_number (Some (Num x)) = (x \<noteq> 0)"

text \<open>
  \<^verbatim>\<open>Number(x || d)\<close> and \<^verbatim>\<open>x || d\<close> for a numeric property \<open>x\<close> and a numeric default
  \<open>d\<close>: a truthy \<open>x\<close> is a non-zero number and is kept, anything else gives \<open>d\<close>.
\<close>

fun Number_or :: "jsnumber option \<Rightarrow> real \<Rightarrow> real" where
  "Number_or None d = d"
| "Number_or (Some NaN) d = d"
| "Number_or (Some (Num x)) d = (if x \<noteq> 0 then x else d)"

section \<open>The pricing input\<close>

text \<open>
  Modelled from the spec: the type \<^verbatim>\<open>QuotationInputs\<close> of \<^verbatim>\<open>types/quotation\<close>, which
  is imported by the service and is not among the sources. The records hold the properties
  that \<^verbatim>\<open>calculateTotalRent\<close> reads, with the types of section 3 of the specification:
  a rate tier is one of micro, small, monthly, yearly; a machine carries \<^verbatim>\<open>baseRate\<close>,
  \<^verbatim>\<open>quantity\<close> and \<^verbatim>\<open>runningCostPerKm\<close>; the legacy equipment carries per-tier
  \<^verbatim>\<open>baseRates\<close>. The properties that the code reads without a truthiness test
  (\<^verbatim>\<open>baseRate\<close>, \<^verbatim>\<open>quantity\<close>, the four tier rates) are numbers. \<^verbatim>\<open>shift\<close>,
  \<^verbatim>\<open>usage\<close> and \<^verbatim>\<open>riskFactor\<close> are strings, compared with the literals of the source;
  an absent one is any other string.
\<close>

datatype OrderType = Micro | Small | Monthly | Yearly

record BaseRates =
  micro :: real
  small :: real
  monthly :: real
  yearly :: real

record Equipment =
  baseRates :: "BaseRates option"

record SelectedMachine =
  baseRate :: real
  quantity :: real
  runningCostPerKm :: "jsnumber option"

record QuotationInputs =
  numberOfDays :: "jsnumber option"
  workingHours :: "jsnumber option"
  shift :: string
  usage :: string
  riskFactor :: string
  orderType :: OrderType
  selectedEquipment :: "Equipment option"
  selectedMachines :: "SelectedMachine list option"
  foodResources :: "jsnumber option"
  accomResources :: "jsnumber option"
  siteDistance :: "jsnumber option"
  mobDemob :: "jsnumber option"
  mobRelaxation :: "jsnumber option"
  runningCostPerKm :: "jsnumber option"
  extraCharge :: "jsnumber option"
  includeGst :: bool

text \<open>\<^verbatim>\<open>baseRates[orderType]\<close>\<close>

fun tierRate :: "BaseRates \<Rightarrow> OrderType \<Rightarrow> real" where
  "tierRate r Micro = micro r"
| "tierRate r Small = small r"
| "tierRate r Monthly = monthly r"
| "tierRate r Yearly = yearly r"

text \<open>\<^verbatim>\<open>quotationData.selectedEquipment?.baseRates\<close>\<close>

definition equipmentBaseRates :: "QuotationInputs \<Rightarrow> BaseRates option" where
  "equipmentBaseRates q = (case selectedEquipment q of None \<Rightarrow> None | Some e \<Rightarrow> baseRates e)"

section \<open>calculateTotalRent\<close>

text \<open>
  Each local constant of the function body is a definition of its own, named as in the
  source. \<open>days\<close> is \<^verbatim>\<open>Number(quotationData.numberOfDays)\<close>; the body is entered only
  after the guard on \<^verbatim>\<open>numberOfDays\<close>, so \<open>days\<close> is passed as a non-zero number.
\<close>

definition hasMachines :: "QuotationInputs \<Rightarrow> bool" where
  "hasMachines q = (case selectedMachines q of None \<Rightarrow> False | Some ms \<Rightarrow> length ms > 0)"

text \<open>\<^verbatim>\<open>quotationData.selectedMachines!\<close>, read only where \<open>hasMachines\<close> holds.\<close>

definition machines :: "QuotationInputs \<Rightarrow> SelectedMachine list" where
  "machines q = (case selectedMachines q of None \<Rightarrow> [] | Some ms \<Rightarrow> ms)"

definition isMonthly :: "real \<Rightarrow> bool" where
  "isMonthly days = (days > 25)"

definition effectiveDays :: "real \<Rightarrow> real" where
  "effectiveDays days = (if isMonthly days then 26 else days)"

definition workingHours_of :: "QuotationInputs \<Rightarrow> real" where
  "workingHours_of q = Number_or (workingHours q) 8"

definition shiftMultiplier :: "QuotationInputs \<Rightarrow> real" where
  "shiftMultiplier q = (if shift q = ''double'' then 2 else 1)"

definition hourlyRate :: "QuotationInputs \<Rightarrow> real \<Rightarrow> real" where
  "hourlyRate q machineBaseRate = (machineBaseRate / 26) / workingHours_of q"

definition machineCost :: "QuotationInputs \<Rightarrow> real \<Rightarrow> SelectedMachine \<Rightarrow> real" where
  "machineCost q days machine =
     (let machineBaseRate = baseRate machine;
          machineQuantity = quantity machine
      in if isMonthly days
         then hourlyRate q machineBaseRate * workingHours_of q * effectiveDays days
                * shiftMultiplier q * machineQuantity
         else machineBaseRate * workingHours_of q * effectiveDays days
                * shiftMultiplier q * machineQuantity)"

definition workingCost :: "QuotationInputs \<Rightarrow> real \<Rightarrow> real" where
  "workingCost q days =
     (if hasMachines q
      then fold (\<lambda>machine acc. acc + machineCost q days machine) (machines q) 0
      else case equipmentBaseRates q of
             Some rates \<Rightarrow>
               (let machineBaseRate = tierRate rates (orderType q)
                in if isMonthly days
                   then hourlyRate q machineBaseRate * workingHours_of q * effectiveDays days
                          * shiftMultiplier q
                   else machineBaseRate * workingHours_of q * effectiveDays days
                          * shiftMultiplier q)
           | None \<Rightarrow> 0)"

definition usagePercentage :: "QuotationInputs \<Rightarrow> real" where
  "usagePercentage q = (if usage q = ''heavy'' then 0.10 else 0.05)"

definition usageLoadFactor :: "QuotationInputs \<Rightarrow> real" where
  "usageLoadFactor q =
     (if hasMachines q
      then fold (\<lambda>machine acc. acc + baseRate machine * quantity machine * usagePercentage q)
             (machines q) 0
      else case equipmentBaseRates q of
             Some rates \<Rightarrow> tierRate rates (orderType q) * usagePercentage q
           | None \<Rightarrow> 0)"

definition foodDailyRate :: real where
  "foodDailyRate = 2500 / 26"

definition accomDailyRate :: real where
  "accomDailyRate = 4000 / 26"

definition foodAccomCost :: "QuotationInputs \<Rightarrow> real \<Rightarrow> real" where
  "foodAccomCost q days =
     (if isMonthly days
      then (Number_or (foodResources q) 0 * 2500) + (Number_or (accomResources q) 0 * 4000)
      else ((Number_or (foodResources q) 0 * foodDailyRate)
             + (Number_or (accomResources q) 0 * accomDailyRate)) * effectiveDays days)"

definition distance :: "QuotationInputs \<Rightarrow> real" where
  "distance q = Number_or (siteDistance q) 0"

definition trailerCost :: "QuotationInputs \<Rightarrow> real" where
  "trailerCost q = Number_or (mobDemob q) 0"

definition mobRelaxationPercent :: "QuotationInputs \<Rightarrow> real" where
  "mobRelaxationPercent q = Number_or (mobRelaxation q) 0"

definition machineMobDemobCost :: "QuotationInputs \<Rightarrow> SelectedMachine \<Rightarrow> real" where
  "machineMobDemobCost q machine =
     (let runningCostPerKm = Number_or (SelectedMachine.runningCostPerKm machine) 0;
          distToSiteCost = distance q * runningCostPerKm * 2 * quantity machine;
          mobRelaxationAmount = (distToSiteCost * mobRelaxationPercent q) / 100
      in (distToSiteCost - mobRelaxationAmount) + (trailerCost q * quantity machine))"

definition mobDemobCost :: "QuotationInputs \<Rightarrow> real" where
  "mobDemobCost q =
     (if hasMachines q
      then fold (\<lambda>machine acc. acc + machineMobDemobCost q machine) (machines q) 0
      else (let runningCostPerKm = Number_or (QuotationInputs.runningCostPerKm q) 0;
                distanceCost = distance q * runningCostPerKm * 2;
                relaxationAmount = (distanceCost * mobRelaxationPercent q) / 100
            in distanceCost + trailerCost q - relaxationAmount))"

definition riskPercentage :: "QuotationInputs \<Rightarrow> real" where
  "riskPercentage q =
     (if riskFactor q = ''high'' then 0.15
      else if riskFactor q = ''medium'' then 0.10 else 0.05)"

definition riskAdjustment :: "QuotationInputs \<Rightarrow> real" where
  "riskAdjustment q =
     (if hasMachines q
      then fold (\<lambda>machine acc. acc + baseRate machine * quantity machine * riskPercentage q)
             (machines q) 0
      else case equipmentBaseRates q of
             Some rates \<Rightarrow> tierRate rates (orderType q) * riskPercentage q
           | None \<Rightarrow> 0)"

definition extraCharges :: "QuotationInputs \<Rightarrow> real" where
  "extraCharges q = Number_or (extraCharge q) 0"

definition subtotal :: "QuotationInputs \<Rightarrow> real \<Rightarrow> real" where
  "subtotal q days =
     workingCost q days + foodAccomCost q days + mobDemobCost q + riskAdjustment q
       + usageLoadFactor q + extraCharges q"

definition gstAmount :: "QuotationInputs \<Rightarrow> real \<Rightarrow> real" where
  "gstAmount q days = (if includeGst q then subtotal q days * 0.18 else 0)"

definition totalAmount :: "QuotationInputs \<Rightarrow> real \<Rightarrow> real" where
  "totalAmount q days = subtotal q days + gstAmount q days"

subsection \<open>The try block, the catch block and the console\<close>

text \<open>
  The argument is \<open>None\<close> when the caller passes \<^verbatim>\<open>null\<close> or \<^verbatim>\<open>undefined\<close>: reading
  \<^verbatim>\<open>quotationData.numberOfDays\<close> then raises a \<^verbatim>\<open>TypeError\<close> inside the try block.
  The guard \<^verbatim>\<open>!quotationData.numberOfDays\<close> returns 0 for an absent, \<^verbatim>\<open>NaN\<close> or zero
  value; otherwise \<^verbatim>\<open>Number(quotationData.numberOfDays)\<close> is that non-zero number.
\<close>

datatype js_error = TypeError | FirebaseError

definition calculateTotalRent_try :: "QuotationInputs option \<Rightarrow> js_error + real" where
  "calculateTotalRent_try quotationData =
     (case quotationData of
        None \<Rightarrow> Inl TypeError
      | Some q \<Rightarrow>
          (case numberOfDays q of
             Some (Num days) \<Rightarrow> if days = 0 then Inr 0 else Inr (totalAmount q days)
           | _ \<Rightarrow> Inr 0))"

text \<open>
  The whole function, with the lines written by \<^verbatim>\<open>console.error\<close> as explicit state:
  the catch block logs and returns 0.
\<close>

type_synonym console = "string list"

definition calculateTotalRent_run :: "QuotationInputs option \<Rightarrow> console \<Rightarrow> real \<times> console" where
  "calculateTotalRent_run quotationData con =
     (case calculateTotalRent_try quotationData of
        Inr amount \<Rightarrow> (amount, con)
      | Inl err \<Rightarrow> (0, con @ [''Error calculating total rent:'']))"

definition calculateTotalRent :: "QuotationInputs option \<Rightarrow> real" where
  "calculateTotalRent quotationData = fst (calculateTotalRent_run quotationData [])"

subsection \<open>The GST step in double arithmetic\<close>








section \<open>Stored documents as JavaScript values\<close>

text \<open>
  Firestore documents and request bodies are untyped at run time, so they are modelled as
  JavaScript values: an object is its list of properties in the order they were written,
  and among several properties of one name the last one counts, as in an object literal
  that spreads \<^verbatim>\<open>...data\<close> and then overrides properties.
\<close>

datatype jsvalue =
    Undefined
  | Null
  | JBool bool
  | JNum real
  | JNaN
  | JStr string
  | JArr "jsvalue list"
  | JObj "(string \<times> jsvalue) list"

type_synonym DocumentData = "(string \<times> jsvalue) list"

fun truthy :: "jsvalue \<Rightarrow> bool" where
  "truthy Undefined = False"
| "truthy Null = False"
| "truthy (JBool b) = b"
| "truthy (JNum x) = (x \<noteq> 0)"
| "truthy JNaN = False"
| "truthy (JStr s) = (s \<noteq> [])"
| "truthy (JArr xs) = True"
| "truthy (JObj kvs) = True"

text \<open>\<^verbatim>\<open>a || b\<close> and \<^verbatim>\<open>a ?? b\<close>\<close>

definition js_or :: "jsvalue \<Rightarrow> jsvalue \<Rightarrow> jsvalue" where
  "js_or a b = (if truthy a then a else b)"

definition js_nullish :: "jsvalue \<Rightarrow> jsvalue \<Rightarrow> jsvalue" where
  "js_nullish a b = (if a = Undefined \<or> a = Null then b else a)"

text \<open>\<^verbatim>\<open>data.k\<close> on an object given by its properties: \<^verbatim>\<open>undefined\<close> when there is none.\<close>

definition lookup :: "DocumentData \<Rightarrow> string \<Rightarrow> jsvalue" where
  "lookup kvs k = (case map_of (rev kvs) k of None \<Rightarrow> Undefined | Some v \<Rightarrow> v)"

text \<open>
  \<^verbatim>\<open>v?.k\<close>, and \<^verbatim>\<open>v.k\<close> or \<^verbatim>\<open>v[k]\<close> on a value that is neither \<^verbatim>\<open>null\<close> nor
  \<^verbatim>\<open>undefined\<close>: named properties exist on objects only.
\<close>

fun js_prop :: "jsvalue \<Rightarrow> string \<Rightarrow> jsvalue" where
  "js_prop (JObj kvs) k = lookup kvs k"
| "js_prop v k = Undefined"

text \<open>\<^verbatim>\<open>v.k\<close> where \<open>v\<close> may be \<^verbatim>\<open>null\<close> or \<^verbatim>\<open>undefined\<close>: a \<^verbatim>\<open>TypeError\<close> then.\<close>

fun js_get :: "jsvalue \<Rightarrow> string \<Rightarrow> js_error + jsvalue" where
  "js_get Undefined k = Inl TypeError"
| "js_get Null k = Inl TypeError"
| "js_get v k = Inr (js_prop v k)"

text \<open>
  \<^verbatim>\<open>v.length\<close> as a number, for arrays and strings; no other value has a length
  (a stored map that carries a property named \<^verbatim>\<open>length\<close> of its own is outside the model).
\<close>

fun js_length :: "jsvalue \<Rightarrow> nat option" where
  "js_length (JArr xs) = Some (length xs)"
| "js_length (JStr s) = Some (length s)"
| "js_length v = None"

text \<open>\<^verbatim>\<open>v.length > n\<close> and \<^verbatim>\<open>v?.length > n\<close>: false when the length is \<^verbatim>\<open>undefined\<close>.\<close>

definition length_gt :: "jsvalue \<Rightarrow> nat \<Rightarrow> bool" where
  "length_gt v n = (case js_length v of None \<Rightarrow> False | Some l \<Rightarrow> l > n)"

text \<open>\<^verbatim>\<open>v[0]\<close> on a value with a length.\<close>

fun first_element :: "jsvalue \<Rightarrow> jsvalue" where
  "first_element (JArr (x # xs)) = x"
| "first_element (JStr (c # cs)) = JStr [c]"
| "first_element v = Undefined"

text \<open>A length inside a template literal: its decimal digits.\<close>

definition digit_char :: "nat \<Rightarrow> char" where
  "digit_char n = ''0123456789'' ! (n mod 10)"

fun string_of_nat :: "nat \<Rightarrow> string" where
  "string_of_nat n =
     (if n < 10 then [digit_char n] else string_of_nat (n div 10) @ [digit_char n])"

declare string_of_nat.simps [simp del]

definition length_text :: "jsvalue \<Rightarrow> string" where
  "length_text v = (case js_length v of None \<Rightarrow> ''undefined'' | Some l \<Rightarrow> string_of_nat l)"

section \<open>The read accessors of the quotation service\<close>

text \<open>
  A query snapshot is the list of the documents that Firestore returned, each with its
  identifier: the query itself (collection, \<^verbatim>\<open>where\<close>, \<^verbatim>\<open>orderBy\<close>) is Firestore's and is
  taken as given. \<open>now\<close> is \<^verbatim>\<open>new Date().toISOString()\<close>.
\<close>

type_synonym QuerySnapshot = "(string \<times> DocumentData) list"

definition customerContact_of :: "DocumentData \<Rightarrow> jsvalue" where
  "customerContact_of data =
     JObj [
       (''name'', js_or (js_prop (lookup data ''customerContact'') ''name'')
                    (js_or (lookup data ''customerName'') (JStr ''Unknown''))),
       (''email'', js_or (js_prop (lookup data ''customerContact'') ''email'') (JStr [])),
       (''phone'', js_or (js_prop (lookup data ''customerContact'') ''phone'') (JStr [])),
       (''company'', js_or (js_prop (lookup data ''customerContact'') ''company'') (JStr [])),
       (''address'', js_or (js_prop (lookup data ''customerContact'') ''address'') (JStr [])),
       (''designation'', js_or (js_prop (lookup data ''customerContact'') ''designation'') (JStr []))]"

definition zeroBaseRates :: jsvalue where
  "zeroBaseRates =
     JObj [(''micro'', JNum 0), (''small'', JNum 0), (''monthly'', JNum 0), (''yearly'', JNum 0)]"

text \<open>The \<^verbatim>\<open>selectedEquipment\<close> object that both defaulting accessors build around a name.\<close>

definition selectedEquipment_of :: "DocumentData \<Rightarrow> jsvalue \<Rightarrow> jsvalue" where
  "selectedEquipment_of data equipmentName =
     JObj [
       (''id'', js_or (js_prop (lookup data ''selectedEquipment'') ''id'') (JStr [])),
       (''equipmentId'', js_or (js_prop (lookup data ''selectedEquipment'') ''equipmentId'') (JStr [])),
       (''name'', equipmentName),
       (''baseRates'', js_or (js_prop (lookup data ''selectedEquipment'') ''baseRates'') zeroBaseRates)]"

subsection \<open>getQuotations\<close>

definition getQuotations_name :: "DocumentData \<Rightarrow> jsvalue" where
  "getQuotations_name data =
     (if length_gt (lookup data ''selectedMachines'') 0
      then JStr (length_text (lookup data ''selectedMachines'') @ '' machines selected'')
      else js_or (js_prop (lookup data ''selectedEquipment'') ''name'') (JStr ''Unknown Equipment''))"

definition getQuotations_doc :: "string \<Rightarrow> string \<Rightarrow> DocumentData \<Rightarrow> jsvalue" where
  "getQuotations_doc now docId data =
     JObj ([(''id'', JStr docId)] @ data @ [
       (''customerContact'', customerContact_of data),
       (''selectedEquipment'', selectedEquipment_of data (getQuotations_name data)),
       (''selectedMachines'', js_or (lookup data ''selectedMachines'') (JArr [])),
       (''createdAt'', js_or (lookup data ''createdAt'') (JStr now)),
       (''updatedAt'', js_or (lookup data ''updatedAt'') (JStr now)),
       (''status'', js_or (lookup data ''status'') (JStr ''draft'')),
       (''totalRent'', js_or (lookup data ''totalRent'') (JNum 0)),
       (''version'', js_or (lookup data ''version'') (JNum 1))])"

definition getQuotations :: "string \<Rightarrow> QuerySnapshot \<Rightarrow> jsvalue list" where
  "getQuotations now snapshot = map (\<lambda>(docId, data). getQuotations_doc now docId data) snapshot"

subsection \<open>getQuotationsForLead and getQuotationsForCustomer\<close>

text \<open>
  Both map each document of their query's snapshot to \<^verbatim>\<open>{ id: doc.id, ...doc.data() }\<close>;
  they differ in the query only (\<^verbatim>\<open>leadId\<close> or \<^verbatim>\<open>customerId\<close>).
\<close>

definition getQuotationsForLead :: "QuerySnapshot \<Rightarrow> jsvalue list" where
  "getQuotationsForLead snapshot = map (\<lambda>(docId, data). JObj ([(''id'', JStr docId)] @ data)) snapshot"

definition getQuotationsForCustomer :: "QuerySnapshot \<Rightarrow> jsvalue list" where
  "getQuotationsForCustomer snapshot = map (\<lambda>(docId, data). JObj ([(''id'', JStr docId)] @ data)) snapshot"

subsection \<open>getQuotationById\<close>

text \<open>
  The display name: \<^verbatim>\<open>selectedMachines[0].name\<close> raises a \<^verbatim>\<open>TypeError\<close> when the only
  element of the stored array is \<^verbatim>\<open>null\<close>; the accessor logs the error and throws it again.
\<close>

definition getQuotationById_name :: "DocumentData \<Rightarrow> js_error + jsvalue" where
  "getQuotationById_name data =
     (let selectedMachines = js_or (lookup data ''selectedMachines'') (JArr []);
          equipmentName = js_or (js_prop (lookup data ''selectedEquipment'') ''name'')
                            (JStr ''Unknown Equipment'')
      in if length_gt selectedMachines 1
         then Inr (JStr (length_text selectedMachines @ '' machines selected''))
         else if js_length selectedMachines = Some 1
         then js_get (first_element selectedMachines) ''name''
         else Inr equipmentName)"

definition getQuotationById_doc :: "string \<Rightarrow> string \<Rightarrow> DocumentData \<Rightarrow> jsvalue \<Rightarrow> jsvalue" where
  "getQuotationById_doc now docId data equipmentName =
     JObj ([(''id'', JStr docId)] @ data @ [
       (''customerContact'', customerContact_of data),
       (''selectedEquipment'', selectedEquipment_of data equipmentName),
       (''selectedMachines'', js_or (lookup data ''selectedMachines'') (JArr [])),
       (''machineType'', js_or (lookup data ''machineType'') (JStr [])),
       (''orderType'', js_or (lookup data ''orderType'') (JStr ''micro'')),
       (''numberOfDays'', js_or (lookup data ''numberOfDays'') (JNum 0)),
       (''workingHours'', js_or (lookup data ''workingHours'') (JNum 8)),
       (''foodResources'', js_or (lookup data ''foodResources'') (JNum 0)),
       (''accomResources'', js_or (lookup data ''accomResources'') (JNum 0)),
       (''siteDistance'', js_or (lookup data ''siteDistance'') (JNum 0)),
       (''usage'', js_or (lookup data ''usage'') (JStr ''normal'')),
       (''riskFactor'', js_or (lookup data ''riskFactor'') (JStr ''low'')),
       (''extraCharge'', js_or (lookup data ''extraCharge'') (JNum 0)),
       (''incidentalCharges'', js_or (lookup data ''incidentalCharges'') (JArr [])),
       (''otherFactorsCharge'', js_or (lookup data ''otherFactorsCharge'') (JNum 0)),
       (''billing'', js_or (lookup data ''billing'') (JStr ''gst'')),
       (''baseRate'', js_or (lookup data ''baseRate'') (JNum 0)),
       (''includeGst'', js_nullish (lookup data ''includeGst'') (JBool True)),
       (''shift'', js_or (lookup data ''shift'') (JStr ''single'')),
       (''dayNight'', js_or (lookup data ''dayNight'') (JStr ''day'')),
       (''mobDemob'', js_or (lookup data ''mobDemob'') (JNum 0)),
       (''mobRelaxation'', js_or (lookup data ''mobRelaxation'') (JNum 0)),
       (''runningCostPerKm'', js_or (lookup data ''runningCostPerKm'') (JNum 0)),
       (''version'', js_or (lookup data ''version'') (JNum 1)),
       (''createdAt'', js_or (lookup data ''createdAt'') (JStr now)),
       (''updatedAt'', js_or (lookup data ''updatedAt'') (JStr now)),
       (''createdBy'', js_or (lookup data ''createdBy'') (JStr ''system'')),
       (''status'', js_or (lookup data ''status'') (JStr ''draft'')),
       (''totalRent'', js_or (lookup data ''totalRent'') (JNum 0)),
       (''leadId'', js_or (lookup data ''leadId'') (JStr [])),
       (''customerId'', js_or (lookup data ''customerId'') (JStr [])),
       (''customerName'', js_or (lookup data ''customerName'') (JStr ''Unknown'')),
       (''otherFactors'', js_or (lookup data ''otherFactors'') (JArr [])),
       (''dealType'', lookup data ''dealType''),
       (''sundayWorking'', lookup data ''sundayWorking'')])"

text \<open>\<open>docSnap\<close> is \<open>None\<close> when the document does not exist; the accessor returns \<^verbatim>\<open>null\<close> then.\<close>

definition getQuotationById :: "string \<Rightarrow> string \<Rightarrow> DocumentData option \<Rightarrow> js_error + jsvalue" where
  "getQuotationById now docId docSnap =
     (case docSnap of
        None \<Rightarrow> Inr Null
      | Some data \<Rightarrow>
          (case getQuotationById_name data of
             Inl err \<Rightarrow> Inl err
           | Inr equipmentName \<Rightarrow> Inr (getQuotationById_doc now docId data equipmentName)))"

section \<open>The forwarding endpoints\<close>

text \<open>
  \<^verbatim>\<open>handleLeadSubmission\<close> and \<^verbatim>\<open>handleQuotationSubmission\<close> answer a request body with a
  status and a JSON value, and may add one document to the store. \<^verbatim>\<open>addDoc\<close> is Firestore's:
  it is a parameter that, given the collection name and the document, either fails or
  returns the new document's identifier and the new store. \<open>now\<close> is \<^verbatim>\<open>new Date()\<close>.
\<close>

record Response =
  status :: nat
  json :: jsvalue

type_synonym 'db addDoc = "string \<Rightarrow> jsvalue \<Rightarrow> 'db \<Rightarrow> js_error + (string \<times> 'db)"

text \<open>
  The loop over \<^verbatim>\<open>requiredFields\<close>: the first field \<open>f\<close>, in the order of the list,
  with \<^verbatim>\<open>!data[f]\<close>.
\<close>

fun firstMissing :: "jsvalue \<Rightarrow> string list \<Rightarrow> string option" where
  "firstMissing data [] = None"
| "firstMissing data (field # rest) =
     (if \<not> truthy (js_prop data field) then Some field else firstMissing data rest)"

text \<open>\<^verbatim>\<open>data.k = v\<close> on an object; only objects reach the assignments of the handlers.\<close>

fun set_prop :: "jsvalue \<Rightarrow> string \<Rightarrow> jsvalue \<Rightarrow> jsvalue" where
  "set_prop (JObj kvs) k v = JObj (kvs @ [(k, v)])"
| "set_prop d k v = d"

definition leadRequiredFields :: "string list" where
  "leadRequiredFields = [''customerName'', ''equipmentNeeded'', ''contactInfo'']"

definition leadDefaults :: "jsvalue \<Rightarrow> jsvalue \<Rightarrow> jsvalue" where
  "leadDefaults now leadData =
     (let d1 = (if \<not> truthy (js_prop leadData ''timestamp'')
                then set_prop leadData ''timestamp'' now else leadData);
          d2 = (if \<not> truthy (js_prop d1 ''status'')
                then set_prop d1 ''status'' (JStr ''new'') else d1);
          d3 = (if \<not> truthy (js_prop d2 ''source'')
                then set_prop d2 ''source'' (JStr ''AI Assistant'') else d2)
      in d3)"

definition handleLeadSubmission :: "'db addDoc \<Rightarrow> jsvalue \<Rightarrow> jsvalue \<Rightarrow> 'db \<Rightarrow> Response \<times> 'db" where
  "handleLeadSubmission addDoc now body db =
     (let leadData = body
      in if \<not> truthy leadData
         then (\<lparr>status = 400, json = JObj [(''error'', JStr ''Lead data is required'')]\<rparr>, db)
         else case firstMissing leadData leadRequiredFields of
                Some field \<Rightarrow>
                  (\<lparr>status = 400,
                    json = JObj [(''error'', JStr (''Missing required field: '' @ field))]\<rparr>, db)
              | None \<Rightarrow>
                  (case addDoc ''leads'' (leadDefaults now leadData) db of
                     Inr (docId, db') \<Rightarrow>
                       (\<lparr>status = 201,
                         json = JObj [(''success'', JBool True),
                                      (''message'', JStr ''Lead created successfully''),
                                      (''id'', JStr docId)]\<rparr>, db')
                   | Inl err \<Rightarrow>
                       (\<lparr>status = 500,
                         json = JObj [(''error'', JStr ''Failed to create lead'')]\<rparr>, db)))"

definition quotationRequiredFields :: "string list" where
  "quotationRequiredFields = [''leadId'', ''equipmentDetails'', ''totalPrice'']"

definition quotationDefaults :: "jsvalue \<Rightarrow> jsvalue \<Rightarrow> jsvalue" where
  "quotationDefaults now quotationData =
     (let d1 = (if \<not> truthy (js_prop quotationData ''createdAt'')
                then set_prop quotationData ''createdAt'' now else quotationData);
          d2 = (if \<not> truthy (js_prop d1 ''status'')
                then set_prop d1 ''status'' (JStr ''draft'') else d1)
      in d2)"

definition handleQuotationSubmission :: "'db addDoc \<Rightarrow> jsvalue \<Rightarrow> jsvalue \<Rightarrow> 'db \<Rightarrow> Response \<times> 'db" where
  "handleQuotationSubmission addDoc now body db =
     (let quotationData = body
      in if \<not> truthy quotationData
         then (\<lparr>status = 400, json = JObj [(''error'', JStr ''Quotation data is required'')]\<rparr>, db)
         else case firstMissing quotationData quotationRequiredFields of
                Some field \<Rightarrow>
                  (\<lparr>status = 400,
                    json = JObj [(''error'', JStr (''Missing required field: '' @ field))]\<rparr>, db)
              | None \<Rightarrow>
                  (case addDoc ''quotations'' (quotationDefaults now quotationData) db of
                     Inr (docId, db') \<Rightarrow>
                       (\<lparr>status = 201,
                         json = JObj [(''success'', JBool True),
                                      (''message'', JStr ''Quotation created successfully''),
                                      (''id'', JStr docId)]\<rparr>, db')
                   | Inl err \<Rightarrow>
                       (\<lparr>status = 500,
                         json = JObj [(''error'', JStr ''Failed to create quotation'')]\<rparr>, db)))"

section \<open>Sample inputs\<close>

text \<open>A monthly fleet quotation that also carries a populated legacy equipment.\<close>

definition sample_fleet :: QuotationInputs where
  "sample_fleet =
     \<lparr>numberOfDays = Some (Num 30), workingHours = Some (Num 0), shift = ''double'',
      usage = ''heavy'', riskFactor = ''high'', orderType = Monthly,
      selectedEquipment =
        Some \<lparr>baseRates = Some \<lparr>micro = 100, small = 200, monthly = 300, yearly = 400\<rparr>\<rparr>,
      selectedMachines =
        Some [\<lparr>baseRate = 26000, quantity = 2, SelectedMachine.runningCostPerKm = Some (Num 10)\<rparr>,
              \<lparr>baseRate = 13000, quantity = 1, SelectedMachine.runningCostPerKm = None\<rparr>],
      foodResources = Some (Num 2), accomResources = Some (Num 1),
      siteDistance = Some (Num 100), mobDemob = Some (Num 500), mobRelaxation = Some (Num 50),
      runningCostPerKm = Some (Num 10), extraCharge = Some (Num 1000), includeGst = True\<rparr>"

text \<open>The mobilization example of the specification, in single-equipment mode, for one day.\<close>

definition sample_single :: QuotationInputs where
  "sample_single =
     \<lparr>numberOfDays = Some (Num 1), workingHours = None, shift = ''single'',
      usage = ''normal'', riskFactor = ''low'', orderType = Micro,
      selectedEquipment = None, selectedMachines = None,
      foodResources = None, accomResources = None,
      siteDistance = Some (Num 100), mobDemob = Some (Num 0), mobRelaxation = Some (Num 50),
      runningCostPerKm = Some (Num 10), extraCharge = None, includeGst = False\<rparr>"



text \<open>A store kept in memory: a list of the written documents with their collections.\<close>

definition memory_addDoc :: "(string \<times> jsvalue) list addDoc" where
  "memory_addDoc coll document db = Inr (''doc'' @ string_of_nat (length db), db @ [(coll, document)])"

definition sample_lead :: jsvalue where
  "sample_lead =
     JObj [(''customerName'', JStr ''Asha''), (''equipmentNeeded'', JStr ''crane''),
           (''contactInfo'', JStr ''asha@example.com''), (''status'', JStr ''hot'')]"

definition sample_quotation :: jsvalue where
  "sample_quotation =
     JObj [(''leadId'', JStr ''L1''), (''equipmentDetails'', JStr ''crane''),
           (''totalPrice'', JNum 5000)]"

definition sample_now :: jsvalue where
  "sample_now = JStr ''2025-06-01T10:00:00.000Z''"

text \<open>A lead without the second required field, and a quotation whose price is 0.\<close>

definition lead_without_equipment :: jsvalue where
  "lead_without_equipment =
     JObj [(''customerName'', JStr ''Asha''), (''contactInfo'', JStr ''asha@example.com'')]"

definition quotation_priced_zero :: jsvalue where
  "quotation_priced_zero =
     JObj [(''leadId'', JStr ''L1''), (''equipmentDetails'', JStr ''crane''),
           (''totalPrice'', JNum 0)]"

text \<open>
  Stored quotation documents: the one that \<^verbatim>\<open>handleQuotationSubmission\<close> writes for
  \<open>sample_quotation\<close>, and one with a single machine.
\<close>

definition stored_forwarded :: DocumentData where
  "stored_forwarded =
     [(''leadId'', JStr ''L1''), (''equipmentDetails'', JStr ''crane''),
      (''totalPrice'', JNum 5000), (''createdAt'', JStr ''2025-06-01T10:00:00.000Z''),
      (''status'', JStr ''draft'')]"

definition stored_one_machine :: DocumentData where
  "stored_one_machine =
     [(''selectedMachines'', JArr [JObj [(''name'', JStr ''Crane A''), (''quantity'', JNum 1)]]),
      (''selectedEquipment'', JObj [(''name'', JStr ''Legacy crane'')])]"

section \<open>Properties of the pricing function\<close>

lemma fold_add_sum_list:
  "fold (\<lambda>x acc. acc + f x) xs (a::real) = a + sum_list (map f xs)"
  by (induction xs arbitrary: a) simp_all

lemma Number_or_nonzero: "d \<noteq> 0 \<Longrightarrow> Number_or x d \<noteq> 0"
  by (induction x d rule: Number_or.induct) auto

lemma workingHours_of_nonzero: "workingHours_of q \<noteq> 0"
  unfolding workingHours_of_def by (rule Number_or_nonzero) simp

lemma total_some: "numberOfDays q = Some (Num d) \<Longrightarrow> d \<noteq> 0 \<Longrightarrow> calculateTotalRent (Some q) = totalAmount q d"
  by (simp add: calculateTotalRent_def calculateTotalRent_run_def calculateTotalRent_try_def)

lemma isMonthly_26: "isMonthly d \<Longrightarrow> isMonthly 26 \<and> effectiveDays d = effectiveDays 26"
  by (simp add: isMonthly_def effectiveDays_def)

lemma workingCost_monthly: "isMonthly d \<Longrightarrow> workingCost q d = workingCost q 26"
  using isMonthly_26[of d] by (simp add: workingCost_def machineCost_def split: option.splits)

lemma foodAccomCost_monthly: "isMonthly d \<Longrightarrow> foodAccomCost q d = foodAccomCost q 26"
  using isMonthly_26[of d] by (simp add: foodAccomCost_def)

lemma monthly_total: "isMonthly d \<Longrightarrow> totalAmount q d = totalAmount q 26"
  using workingCost_monthly[of d q] foodAccomCost_monthly[of d q]
  by (simp add: totalAmount_def gstAmount_def subtotal_def)

lemma shiftMultiplier_cong: "shift q' = shift q \<Longrightarrow> shiftMultiplier q' = shiftMultiplier q"
  by (simp add: shiftMultiplier_def)

lemma hourlyRate_cong:
  "workingHours_of q' = workingHours_of q \<Longrightarrow> hourlyRate q' r = hourlyRate q r"
  by (simp add: hourlyRate_def)

lemma machineCost_cong:
  assumes "workingHours_of q' = workingHours_of q" and "shift q' = shift q"
  shows "machineCost q' d m = machineCost q d m"
  unfolding machineCost_def hourlyRate_cong[OF assms(1)] shiftMultiplier_cong[OF assms(2)] assms(1)
  by (rule refl)

lemma hasMachines_cong: "selectedMachines q' = selectedMachines q \<Longrightarrow> hasMachines q' = hasMachines q"
  by (simp add: hasMachines_def)

lemma machines_cong: "selectedMachines q' = selectedMachines q \<Longrightarrow> machines q' = machines q"
  by (simp add: machines_def)

lemma equipmentBaseRates_cong:
  assumes "hasMachines q \<or> selectedEquipment q' = selectedEquipment q" and "\<not> hasMachines q"
  shows "equipmentBaseRates q' = equipmentBaseRates q"
  using assms by (simp add: equipmentBaseRates_def)

lemma workingCost_cong:
  assumes "selectedMachines q' = selectedMachines q"
    and "hasMachines q \<or> selectedEquipment q' = selectedEquipment q"
    and "orderType q' = orderType q"
    and "workingHours_of q' = workingHours_of q" and "shift q' = shift q"
  shows "workingCost q' d = workingCost q d"
proof (cases "hasMachines q")
  case True
  show ?thesis
    unfolding workingCost_def hasMachines_cong[OF assms(1)] machines_cong[OF assms(1)]
      machineCost_cong[OF assms(4,5)]
    using True by simp
next
  case False
  show ?thesis
    unfolding workingCost_def hasMachines_cong[OF assms(1)]
      equipmentBaseRates_cong[OF assms(2) False] hourlyRate_cong[OF assms(4)]
      shiftMultiplier_cong[OF assms(5)] assms(3,4)
    using False by simp
qed

lemma usagePercentage_cong: "usage q' = usage q \<Longrightarrow> usagePercentage q' = usagePercentage q"
  by (simp add: usagePercentage_def)

lemma usageLoadFactor_cong:
  assumes "selectedMachines q' = selectedMachines q"
    and "hasMachines q \<or> selectedEquipment q' = selectedEquipment q"
    and "orderType q' = orderType q" and "usage q' = usage q"
  shows "usageLoadFactor q' = usageLoadFactor q"
proof (cases "hasMachines q")
  case True
  show ?thesis
    unfolding usageLoadFactor_def hasMachines_cong[OF assms(1)] machines_cong[OF assms(1)]
      usagePercentage_cong[OF assms(4)]
    using True by simp
next
  case False
  show ?thesis
    unfolding usageLoadFactor_def hasMachines_cong[OF assms(1)]
      equipmentBaseRates_cong[OF assms(2) False] usagePercentage_cong[OF assms(4)] assms(3)
    using False by simp
qed

lemma riskPercentage_cong: "riskFactor q' = riskFactor q \<Longrightarrow> riskPercentage q' = riskPercentage q"
  by (simp add: riskPercentage_def)

lemma riskAdjustment_cong:
  assumes "selectedMachines q' = selectedMachines q"
    and "hasMachines q \<or> selectedEquipment q' = selectedEquipment q"
    and "orderType q' = orderType q" and "riskFactor q' = riskFactor q"
  shows "riskAdjustment q' = riskAdjustment q"
proof (cases "hasMachines q")
  case True
  show ?thesis
    unfolding riskAdjustment_def hasMachines_cong[OF assms(1)] machines_cong[OF assms(1)]
      riskPercentage_cong[OF assms(4)]
    using True by simp
next
  case False
  show ?thesis
    unfolding riskAdjustment_def hasMachines_cong[OF assms(1)]
      equipmentBaseRates_cong[OF assms(2) False] riskPercentage_cong[OF assms(4)] assms(3)
    using False by simp
qed

lemma mobDemobCost_cong:
  assumes "selectedMachines q' = selectedMachines q"
    and "siteDistance q' = siteDistance q" and "mobDemob q' = mobDemob q"
    and "mobRelaxation q' = mobRelaxation q"
    and "QuotationInputs.runningCostPerKm q' = QuotationInputs.runningCostPerKm q"
  shows "mobDemobCost q' = mobDemobCost q"
  unfolding mobDemobCost_def machineMobDemobCost_def distance_def trailerCost_def
    mobRelaxationPercent_def hasMachines_cong[OF assms(1)] machines_cong[OF assms(1)]
    assms(2,3,4,5)
  by (rule refl)

lemma foodAccomCost_cong:
  assumes "foodResources q' = foodResources q" and "accomResources q' = accomResources q"
  shows "foodAccomCost q' d = foodAccomCost q d"
  using assms by (simp add: foodAccomCost_def)

lemma totalAmount_cong:
  assumes "selectedMachines q' = selectedMachines q"
    and "hasMachines q \<or> selectedEquipment q' = selectedEquipment q"
    and "orderType q' = orderType q"
    and "workingHours_of q' = workingHours_of q" and "shift q' = shift q"
    and "usage q' = usage q" and "riskFactor q' = riskFactor q"
    and "foodResources q' = foodResources q" and "accomResources q' = accomResources q"
    and "siteDistance q' = siteDistance q" and "mobDemob q' = mobDemob q"
    and "mobRelaxation q' = mobRelaxation q"
    and "QuotationInputs.runningCostPerKm q' = QuotationInputs.runningCostPerKm q"
    and "extraCharge q' = extraCharge q" and "includeGst q' = includeGst q"
  shows "totalAmount q' d = totalAmount q d"
proof -
  have "subtotal q' d = subtotal q d"
    unfolding subtotal_def
    using workingCost_cong[OF assms(1,2,3,4,5), of d] usageLoadFactor_cong[OF assms(1,2,3,6)]
      riskAdjustment_cong[OF assms(1,2,3,7)] mobDemobCost_cong[OF assms(1,10,11,12,13)]
      foodAccomCost_cong[OF assms(8,9), of d] assms(14)
    by (simp add: extraCharges_def)
  then show ?thesis
    using assms(15) by (simp add: totalAmount_def gstAmount_def)
qed

text \<open>
  Claim C1. When \<^verbatim>\<open>selectedMachines\<close> is non-empty, every cost component that could read
  the legacy equipment (working cost, usage load, mobilization/demobilization, risk
  adjustment) is computed from the machines alone: replacing \<^verbatim>\<open>selectedEquipment\<close> by any
  other value, with different base rates or none at all, changes neither a component nor
  the total.
\<close>

theorem machines_take_precedence:
  assumes "selectedMachines q = Some ms" and "ms \<noteq> []"
  shows "workingCost (q\<lparr>selectedEquipment := e\<rparr>) d = workingCost q d
       \<and> usageLoadFactor (q\<lparr>selectedEquipment := e\<rparr>) = usageLoadFactor q
       \<and> mobDemobCost (q\<lparr>selectedEquipment := e\<rparr>) = mobDemobCost q
       \<and> riskAdjustment (q\<lparr>selectedEquipment := e\<rparr>) = riskAdjustment q
       \<and> calculateTotalRent (Some (q\<lparr>selectedEquipment := e\<rparr>)) = calculateTotalRent (Some q)"
proof -
  let ?q = "q\<lparr>selectedEquipment := e\<rparr>"
  have hm: "hasMachines q"
    using assms by (simp add: hasMachines_def)
  have wh: "workingHours_of ?q = workingHours_of q"
    by (simp add: workingHours_of_def)
  have w: "workingCost ?q d = workingCost q d"
    by (rule workingCost_cong) (simp_all add: hm wh)
  have u: "usageLoadFactor ?q = usageLoadFactor q"
    by (rule usageLoadFactor_cong) (simp_all add: hm)
  have m: "mobDemobCost ?q = mobDemobCost q"
    by (rule mobDemobCost_cong) simp_all
  have r: "riskAdjustment ?q = riskAdjustment q"
    by (rule riskAdjustment_cong) (simp_all add: hm)
  have t: "totalAmount ?q d' = totalAmount q d'" for d'
    by (rule totalAmount_cong) (simp_all add: hm wh)
  have "calculateTotalRent_try (Some ?q) = calculateTotalRent_try (Some q)"
    by (simp add: calculateTotalRent_try_def t split: option.splits jsnumber.splits)
  then have "calculateTotalRent (Some ?q) = calculateTotalRent (Some q)"
    by (simp add: calculateTotalRent_def calculateTotalRent_run_def)
  with w u m r show ?thesis by simp
qed

theorem machines_take_precedence_witness:
  "selectedMachines sample_fleet \<noteq> None \<and> selectedMachines sample_fleet \<noteq> Some []
   \<and> selectedEquipment sample_fleet \<noteq> None
   \<and> calculateTotalRent (Some (sample_fleet\<lparr>selectedEquipment := None\<rparr>))
       = calculateTotalRent (Some sample_fleet)"
proof -
  obtain ms where ms: "selectedMachines sample_fleet = Some ms" "ms \<noteq> []"
    by (simp add: sample_fleet_def)
  from machines_take_precedence [OF ms, of None] ms show ?thesis
    by (simp add: sample_fleet_def)
qed

text \<open>
  Claim C2. Billing is monthly exactly when the number of days exceeds 25: 25 days are not
  monthly, 26 days are. For monthly billing the effective number of days is 26 whatever
  the actual number is, so the working cost, the food and accommodation cost and the total
  are those of a 26-day quotation.
\<close>

theorem monthly_billing:
  "(isMonthly days \<longleftrightarrow> days > 25)
   \<and> \<not> isMonthly 25 \<and> isMonthly 26
   \<and> (isMonthly days \<longrightarrow>
        effectiveDays days = 26
        \<and> workingCost q days = workingCost q 26
        \<and> foodAccomCost q days = foodAccomCost q 26
        \<and> totalAmount q days = totalAmount q 26
        \<and> calculateTotalRent (Some (q\<lparr>numberOfDays := Some (Num days)\<rparr>))
            = calculateTotalRent (Some (q\<lparr>numberOfDays := Some (Num 26)\<rparr>)))"
proof -
  have a: "isMonthly days \<longleftrightarrow> days > 25" and b: "\<not> isMonthly 25" and c: "isMonthly 26"
    by (simp_all add: isMonthly_def)
  have d: "effectiveDays days = 26
        \<and> workingCost q days = workingCost q 26
        \<and> foodAccomCost q days = foodAccomCost q 26
        \<and> totalAmount q days = totalAmount q 26
        \<and> calculateTotalRent (Some (q\<lparr>numberOfDays := Some (Num days)\<rparr>))
            = calculateTotalRent (Some (q\<lparr>numberOfDays := Some (Num 26)\<rparr>))"
    if m: "isMonthly days"
  proof -
    from m have nz: "days \<noteq> 0" by (simp add: isMonthly_def)
    have e: "effectiveDays days = 26" using m by (simp add: effectiveDays_def)
    have t: "totalAmount q' days = totalAmount q' 26" for q'
      using m by (rule monthly_total)
    have fr: "totalAmount (q\<lparr>numberOfDays := x\<rparr>) d' = totalAmount q d'" for x d'
      by (rule totalAmount_cong) (simp_all add: workingHours_of_def)
    have "calculateTotalRent (Some (q\<lparr>numberOfDays := Some (Num days)\<rparr>)) = totalAmount q days"
      using nz by (simp add: total_some fr)
    moreover have "calculateTotalRent (Some (q\<lparr>numberOfDays := Some (Num 26)\<rparr>)) = totalAmount q 26"
      by (simp add: total_some fr)
    ultimately show ?thesis
      using e workingCost_monthly[OF m] foodAccomCost_monthly[OF m] t by simp
  qed
  from a b c d show ?thesis by blast
qed

theorem monthly_billing_witness:
  "isMonthly 30 \<and> effectiveDays 30 = 26
   \<and> calculateTotalRent (Some (sample_fleet\<lparr>numberOfDays := Some (Num 30)\<rparr>))
       = calculateTotalRent (Some (sample_fleet\<lparr>numberOfDays := Some (Num 26)\<rparr>))
   \<and> calculateTotalRent (Some (sample_fleet\<lparr>numberOfDays := Some (Num 26)\<rparr>)) = 188505"
proof -
  have m: "isMonthly 30" by (simp add: isMonthly_def)
  have "calculateTotalRent (Some (sample_fleet\<lparr>numberOfDays := Some (Num 26)\<rparr>)) = 188505"
    by (simp add: total_some totalAmount_def gstAmount_def subtotal_def workingCost_def
        foodAccomCost_def mobDemobCost_def riskAdjustment_def usageLoadFactor_def
        extraCharges_def hasMachines_def machines_def machineCost_def
        hourlyRate_def workingHours_of_def shiftMultiplier_def usagePercentage_def
        riskPercentage_def machineMobDemobCost_def distance_def trailerCost_def
        mobRelaxationPercent_def isMonthly_def effectiveDays_def sample_fleet_def)
  with m monthly_billing [of 30 sample_fleet] show ?thesis by simp
qed

lemma calculateTotalRent_cong:
  assumes "numberOfDays q' = numberOfDays q"
    and "selectedMachines q' = selectedMachines q"
    and "hasMachines q \<or> selectedEquipment q' = selectedEquipment q"
    and "orderType q' = orderType q"
    and "workingHours_of q' = workingHours_of q" and "shift q' = shift q"
    and "usage q' = usage q" and "riskFactor q' = riskFactor q"
    and "foodResources q' = foodResources q" and "accomResources q' = accomResources q"
    and "siteDistance q' = siteDistance q" and "mobDemob q' = mobDemob q"
    and "mobRelaxation q' = mobRelaxation q"
    and "QuotationInputs.runningCostPerKm q' = QuotationInputs.runningCostPerKm q"
    and "extraCharge q' = extraCharge q" and "includeGst q' = includeGst q"
  shows "calculateTotalRent (Some q') = calculateTotalRent (Some q)"
proof -
  have t: "totalAmount q' d = totalAmount q d" for d
    by (rule totalAmount_cong) (rule assms)+
  have "calculateTotalRent_try (Some q') = calculateTotalRent_try (Some q)"
    by (simp add: calculateTotalRent_try_def assms(1) t split: option.splits jsnumber.splits)
  then show ?thesis
    by (simp add: calculateTotalRent_def calculateTotalRent_run_def)
qed

lemma mobDemobCost_single:
  assumes "\<not> hasMachines q"
  shows "mobDemobCost q =
           distance q * Number_or (QuotationInputs.runningCostPerKm q) 0 * 2
             * (1 - mobRelaxationPercent q / 100) + trailerCost q"
  using assms by (simp add: mobDemobCost_def Let_def algebra_simps)

lemma machineMobDemobCost_eq:
  "machineMobDemobCost q machine =
     distance q * Number_or (SelectedMachine.runningCostPerKm machine) 0 * 2 * quantity machine
       * (1 - mobRelaxationPercent q / 100) + trailerCost q * quantity machine"
  by (simp add: machineMobDemobCost_def Let_def algebra_simps)

lemma mobDemobCost_fleet:
  assumes "hasMachines q"
  shows "mobDemobCost q =
           (\<Sum>machine\<leftarrow>machines q.
              distance q * Number_or (SelectedMachine.runningCostPerKm machine) 0 * 2
                * quantity machine * (1 - mobRelaxationPercent q / 100)
              + trailerCost q * quantity machine)"
  using assms
  by (simp add: mobDemobCost_def fold_add_sum_list machineMobDemobCost_eq)

text \<open>
  Claim C3. The mobilization/demobilization component is the round-trip distance cost
  \<open>distance * runningCostPerKm * 2\<close>, reduced by \<open>mobRelaxation\<close> percent, plus the trailer
  fee \<open>mobDemob\<close>, which is not reduced. With machines, the distance cost and the trailer
  fee of each machine are multiplied by its quantity and the results are summed. For a
  distance of 100, a running cost of 10 per km, a relaxation of 50 and no trailer fee, the
  single-equipment component is 1000.
\<close>

theorem mobDemobCost_formula:
  "(\<not> hasMachines q \<longrightarrow>
      mobDemobCost q =
        distance q * Number_or (QuotationInputs.runningCostPerKm q) 0 * 2
          * (1 - mobRelaxationPercent q / 100) + trailerCost q)
   \<and> (hasMachines q \<longrightarrow>
      mobDemobCost q =
        (\<Sum>machine\<leftarrow>machines q.
           distance q * Number_or (SelectedMachine.runningCostPerKm machine) 0 * 2
             * quantity machine * (1 - mobRelaxationPercent q / 100)
           + trailerCost q * quantity machine))
   \<and> (\<not> hasMachines q \<and> siteDistance q = Some (Num 100)
        \<and> QuotationInputs.runningCostPerKm q = Some (Num 10)
        \<and> mobRelaxation q = Some (Num 50) \<and> mobDemob q = Some (Num 0)
      \<longrightarrow> mobDemobCost q = 1000)"
proof (intro conjI impI)
  assume "\<not> hasMachines q"
  then show "mobDemobCost q =
        distance q * Number_or (QuotationInputs.runningCostPerKm q) 0 * 2
          * (1 - mobRelaxationPercent q / 100) + trailerCost q"
    by (rule mobDemobCost_single)
next
  assume "hasMachines q"
  then show "mobDemobCost q =
        (\<Sum>machine\<leftarrow>machines q.
           distance q * Number_or (SelectedMachine.runningCostPerKm machine) 0 * 2
             * quantity machine * (1 - mobRelaxationPercent q / 100)
           + trailerCost q * quantity machine)"
    by (rule mobDemobCost_fleet)
next
  assume a: "\<not> hasMachines q \<and> siteDistance q = Some (Num 100)
        \<and> QuotationInputs.runningCostPerKm q = Some (Num 10)
        \<and> mobRelaxation q = Some (Num 50) \<and> mobDemob q = Some (Num 0)"
  then show "mobDemobCost q = 1000"
    by (simp add: mobDemobCost_single distance_def trailerCost_def mobRelaxationPercent_def)
qed

theorem mobDemobCost_formula_witness:
  "\<not> hasMachines sample_single \<and> mobDemobCost sample_single = 1000
   \<and> calculateTotalRent (Some sample_single) = 1000
   \<and> hasMachines sample_fleet \<and> mobDemobCost sample_fleet = 3500"
proof -
  have s: "\<not> hasMachines sample_single \<and> siteDistance sample_single = Some (Num 100)
        \<and> QuotationInputs.runningCostPerKm sample_single = Some (Num 10)
        \<and> mobRelaxation sample_single = Some (Num 50) \<and> mobDemob sample_single = Some (Num 0)"
    by (simp add: sample_single_def hasMachines_def)
  have f: "hasMachines sample_fleet"
    by (simp add: sample_fleet_def hasMachines_def)
  have m1: "mobDemobCost sample_single = 1000"
    using mobDemobCost_formula [of sample_single] s by blast
  have "mobDemobCost sample_fleet =
        (\<Sum>machine\<leftarrow>machines sample_fleet.
           distance sample_fleet * Number_or (SelectedMachine.runningCostPerKm machine) 0 * 2
             * quantity machine * (1 - mobRelaxationPercent sample_fleet / 100)
           + trailerCost sample_fleet * quantity machine)"
    using mobDemobCost_formula [of sample_fleet] f by blast
  then have m2: "mobDemobCost sample_fleet = 3500"
    by (simp add: sample_fleet_def machines_def distance_def trailerCost_def
        mobRelaxationPercent_def)
  have "calculateTotalRent (Some sample_single) = totalAmount sample_single 1"
    by (rule total_some) (simp_all add: sample_single_def)
  also have "\<dots> = mobDemobCost sample_single"
    using s
    by (simp add: totalAmount_def gstAmount_def subtotal_def workingCost_def
        usageLoadFactor_def riskAdjustment_def foodAccomCost_def extraCharges_def
        equipmentBaseRates_def isMonthly_def sample_single_def)
  finally show ?thesis using s f m1 m2 by simp
qed














lemma sample_fleet_total: "calculateTotalRent (Some sample_fleet) = 188505"
proof -
  have "calculateTotalRent (Some sample_fleet) = totalAmount sample_fleet 30"
    by (rule total_some) (simp_all add: sample_fleet_def)
  also have "\<dots> = totalAmount sample_fleet 26"
    by (rule monthly_total) (simp add: isMonthly_def)
  also have "\<dots> = 188505"
    by (simp add: totalAmount_def gstAmount_def subtotal_def workingCost_def
        foodAccomCost_def mobDemobCost_def riskAdjustment_def usageLoadFactor_def
        extraCharges_def hasMachines_def machines_def machineCost_def
        hourlyRate_def workingHours_of_def shiftMultiplier_def usagePercentage_def
        riskPercentage_def machineMobDemobCost_def distance_def trailerCost_def
        mobRelaxationPercent_def isMonthly_def effectiveDays_def sample_fleet_def)
  finally show ?thesis .
qed

text \<open>
  Claim C8. When \<^verbatim>\<open>numberOfDays\<close> is absent or 0 (or \<^verbatim>\<open>NaN\<close>), the total is exactly 0,
  whatever the machines, the equipment, the charges and the GST flag are.
\<close>

theorem zero_days:
  assumes "numberOfDays q = None \<or> numberOfDays q = Some (Num 0) \<or> numberOfDays q = Some NaN"
  shows "calculateTotalRent (Some q) = 0"
  using assms
  by (auto simp add: calculateTotalRent_def calculateTotalRent_run_def calculateTotalRent_try_def)

theorem zero_days_witness:
  "calculateTotalRent (Some sample_fleet) = 188505
   \<and> calculateTotalRent (Some (sample_fleet\<lparr>numberOfDays := Some (Num 0)\<rparr>)) = 0
   \<and> calculateTotalRent (Some (sample_fleet\<lparr>numberOfDays := None\<rparr>)) = 0"
proof -
  have "calculateTotalRent (Some sample_fleet) = 188505"
    by (rule sample_fleet_total)
  moreover have "calculateTotalRent (Some (sample_fleet\<lparr>numberOfDays := Some (Num 0)\<rparr>)) = 0"
    by (rule zero_days) simp
  moreover have "calculateTotalRent (Some (sample_fleet\<lparr>numberOfDays := None\<rparr>)) = 0"
    by (rule zero_days) simp
  ultimately show ?thesis by simp
qed

lemma Number_or_falsy: "\<not> truthy_number x \<Longrightarrow> Number_or x d = d"
  by (induction x d rule: Number_or.induct) simp_all

text \<open>
  Claim C10. A falsy \<^verbatim>\<open>workingHours\<close> (absent, 0 or \<^verbatim>\<open>NaN\<close>) is replaced by 8 before
  anything is computed, so the total for working hours 0, absent or \<^verbatim>\<open>NaN\<close> is the total
  for working hours 8. The working hours used are never 0, so the division in the hourly
  rate \<open>(baseRate / 26) / workingHours\<close>, which the per-machine and the single-equipment
  branch share, is never a division by zero: multiplying the hourly rate by the working
  hours gives \<open>baseRate / 26\<close> back.
\<close>

theorem workingHours_default:
  "workingHours_of q \<noteq> 0
   \<and> (\<not> truthy_number (workingHours q) \<longrightarrow> workingHours_of q = 8)
   \<and> hourlyRate q machineBaseRate * workingHours_of q = machineBaseRate / 26
   \<and> calculateTotalRent (Some (q\<lparr>workingHours := Some (Num 0)\<rparr>))
       = calculateTotalRent (Some (q\<lparr>workingHours := Some (Num 8)\<rparr>))
   \<and> calculateTotalRent (Some (q\<lparr>workingHours := None\<rparr>))
       = calculateTotalRent (Some (q\<lparr>workingHours := Some (Num 8)\<rparr>))
   \<and> calculateTotalRent (Some (q\<lparr>workingHours := Some NaN\<rparr>))
       = calculateTotalRent (Some (q\<lparr>workingHours := Some (Num 8)\<rparr>))"
proof -
  have nz: "workingHours_of q \<noteq> 0"
    by (rule workingHours_of_nonzero)
  have falsy: "workingHours_of q = 8" if "\<not> truthy_number (workingHours q)"
    using that unfolding workingHours_of_def by (rule Number_or_falsy)
  have hr: "hourlyRate q machineBaseRate * workingHours_of q = machineBaseRate / 26"
    using nz by (simp add: hourlyRate_def)
  have same: "calculateTotalRent (Some (q\<lparr>workingHours := w\<rparr>))
                = calculateTotalRent (Some (q\<lparr>workingHours := Some (Num 8)\<rparr>))"
    if "Number_or w 8 = 8" for w
    by (rule calculateTotalRent_cong) (simp_all add: workingHours_of_def that)
  from nz falsy hr same [of "Some (Num 0)"] same [of None] same [of "Some NaN"]
  show ?thesis by simp
qed

theorem workingHours_default_witness:
  "workingHours sample_fleet = Some (Num 0) \<and> workingHours_of sample_fleet = 8
   \<and> hourlyRate sample_fleet 26000 = 125
   \<and> calculateTotalRent (Some (sample_fleet\<lparr>workingHours := Some (Num 8)\<rparr>)) = 188505"
proof -
  have w: "workingHours sample_fleet = Some (Num 0)"
    by (simp add: sample_fleet_def)
  then have f: "\<not> truthy_number (workingHours sample_fleet)"
    by simp
  have e: "sample_fleet\<lparr>workingHours := Some (Num 0)\<rparr> = sample_fleet"
    by (simp add: sample_fleet_def)
  note d = workingHours_default [of sample_fleet 26000]
  from d f have h: "workingHours_of sample_fleet = 8"
    by blast
  from d have "hourlyRate sample_fleet 26000 * workingHours_of sample_fleet = 26000 / 26"
    by blast
  then have r: "hourlyRate sample_fleet 26000 = 125"
    unfolding h by simp
  from d have "calculateTotalRent (Some (sample_fleet\<lparr>workingHours := Some (Num 0)\<rparr>))
       = calculateTotalRent (Some (sample_fleet\<lparr>workingHours := Some (Num 8)\<rparr>))"
    by blast
  then have "calculateTotalRent (Some (sample_fleet\<lparr>workingHours := Some (Num 8)\<rparr>)) = 188505"
    unfolding e using sample_fleet_total by simp
  with w h r show ?thesis by simp
qed

text \<open>
  Claim C7, as amended. \<^verbatim>\<open>calculateTotalRent\<close> returns a number for every argument: when
  the try block raises, the catch block returns 0 and nothing of a partial result, and it
  writes one line to the console; when the try block returns, that value is the result and
  the console is untouched. For every argument that is an object the try block returns,
  so the function neither raises nor writes.
\<close>

theorem calculateTotalRent_catch:
  "(calculateTotalRent_try quotationData = Inl err \<longrightarrow>
      calculateTotalRent_run quotationData con = (0, con @ [''Error calculating total rent:'']))
   \<and> (calculateTotalRent_try quotationData = Inr amount \<longrightarrow>
      calculateTotalRent_run quotationData con = (amount, con))
   \<and> calculateTotalRent quotationData =
        (case calculateTotalRent_try quotationData of Inl err \<Rightarrow> 0 | Inr amount \<Rightarrow> amount)
   \<and> (\<exists>amount. calculateTotalRent_try (Some q) = Inr amount)
   \<and> snd (calculateTotalRent_run (Some q) con) = con"
proof -
  have "\<exists>amount. calculateTotalRent_try (Some q) = Inr amount"
    by (simp add: calculateTotalRent_try_def split: option.splits jsnumber.splits)
  then show ?thesis
    by (auto simp add: calculateTotalRent_def calculateTotalRent_run_def split: sum.splits)
qed

theorem calculateTotalRent_catch_witness:
  "calculateTotalRent_try None = Inl TypeError
   \<and> calculateTotalRent_run None [] = (0, [''Error calculating total rent:''])
   \<and> calculateTotalRent_try (Some sample_fleet) = Inr 188505
   \<and> calculateTotalRent_run (Some sample_fleet) [] = (188505, [])"
proof -
  have a: "calculateTotalRent_try None = Inl TypeError"
    by (simp add: calculateTotalRent_try_def)
  obtain amount where b: "calculateTotalRent_try (Some sample_fleet) = Inr amount"
    using calculateTotalRent_catch [of None TypeError "[]" 0 sample_fleet] by blast
  then have "calculateTotalRent (Some sample_fleet) = amount"
    by (simp add: calculateTotalRent_def calculateTotalRent_run_def)
  then have c: "amount = 188505"
    using sample_fleet_total by simp
  from calculateTotalRent_catch [of None TypeError "[]" 0 sample_fleet]
    calculateTotalRent_catch [of "Some sample_fleet" TypeError "[]" 188505 sample_fleet] a b c
  show ?thesis by simp
qed

text \<open>
  The claim as stated also says that the function has no side effects. For the argument
  \<^verbatim>\<open>null\<close> the try block raises and the function, besides returning 0, calls
  \<^verbatim>\<open>console.error\<close>.
\<close>

theorem calculateTotalRent_logs:
  "calculateTotalRent_try None = Inl TypeError
   \<and> fst (calculateTotalRent_run None []) = 0
   \<and> snd (calculateTotalRent_run None []) \<noteq> []"
  by (simp add: calculateTotalRent_run_def calculateTotalRent_try_def)

section \<open>Properties of the read accessors\<close>

lemma truthy_js_prop_obj: "truthy (js_prop d k) \<Longrightarrow> \<exists>kvs. d = JObj kvs"
  by (cases d) simp_all

lemma stored_forwarded_lookups:
  "lookup stored_forwarded ''totalRent'' = Undefined"
  "lookup stored_forwarded ''workingHours'' = Undefined"
  "lookup stored_forwarded ''selectedMachines'' = Undefined"
  "lookup stored_forwarded ''selectedEquipment'' = Undefined"
  by (simp_all add: stored_forwarded_def lookup_def)

text \<open>
  Claim C5. The claim asks for the same defaulting of absent fields on all four read
  accessors. On the stored document that the quotation endpoint writes for
  \<open>sample_quotation\<close>, which has neither \<^verbatim>\<open>totalRent\<close> nor \<^verbatim>\<open>workingHours\<close>, \<^verbatim>\<open>getQuotationById\<close> returns the defaults 0 and 8,
  \<^verbatim>\<open>getQuotations\<close> defaults \<^verbatim>\<open>totalRent\<close> but leaves \<^verbatim>\<open>workingHours\<close> undefined, and
  \<^verbatim>\<open>getQuotationsForLead\<close> and \<^verbatim>\<open>getQuotationsForCustomer\<close> return both undefined.
\<close>

theorem defaulting_differs_by_accessor:
  "quotationDefaults sample_now sample_quotation = JObj stored_forwarded
   \<and> map (\<lambda>quotation. (js_prop quotation ''totalRent'', js_prop quotation ''workingHours''))
       (getQuotationsForLead [(''q1'', stored_forwarded)]) = [(Undefined, Undefined)]
   \<and> map (\<lambda>quotation. (js_prop quotation ''totalRent'', js_prop quotation ''workingHours''))
       (getQuotationsForCustomer [(''q1'', stored_forwarded)]) = [(Undefined, Undefined)]
   \<and> map (\<lambda>quotation. (js_prop quotation ''totalRent'', js_prop quotation ''workingHours''))
       (getQuotations now [(''q1'', stored_forwarded)]) = [(JNum 0, Undefined)]
   \<and> (\<exists>quotation. getQuotationById now ''q1'' (Some stored_forwarded) = Inr quotation
        \<and> js_prop quotation ''totalRent'' = JNum 0
        \<and> js_prop quotation ''workingHours'' = JNum 8)"
proof -
  have a: "map (\<lambda>quotation. (js_prop quotation ''totalRent'', js_prop quotation ''workingHours''))
       (getQuotationsForLead [(''q1'', stored_forwarded)]) = [(Undefined, Undefined)]"
    by (simp add: getQuotationsForLead_def stored_forwarded_def lookup_def)
  have b: "map (\<lambda>quotation. (js_prop quotation ''totalRent'', js_prop quotation ''workingHours''))
       (getQuotationsForCustomer [(''q1'', stored_forwarded)]) = [(Undefined, Undefined)]"
    by (simp add: getQuotationsForCustomer_def stored_forwarded_def lookup_def)
  have c1: "js_prop (getQuotations_doc now ''q1'' stored_forwarded) ''totalRent'' = JNum 0"
    by (simp add: getQuotations_doc_def lookup_def js_or_def stored_forwarded_def)
  have c2: "js_prop (getQuotations_doc now ''q1'' stored_forwarded) ''workingHours'' = Undefined"
    by (simp add: getQuotations_doc_def lookup_def stored_forwarded_def)
  have c: "map (\<lambda>quotation. (js_prop quotation ''totalRent'', js_prop quotation ''workingHours''))
       (getQuotations now [(''q1'', stored_forwarded)]) = [(JNum 0, Undefined)]"
    by (simp add: getQuotations_def c1 c2)
  have n: "getQuotationById_name stored_forwarded = Inr (JStr ''Unknown Equipment'')"
    by (simp add: getQuotationById_name_def stored_forwarded_lookups js_or_def length_gt_def)
  have e: "getQuotationById now ''q1'' (Some stored_forwarded)
             = Inr (getQuotationById_doc now ''q1'' stored_forwarded (JStr ''Unknown Equipment''))"
    by (simp add: getQuotationById_def n)
  have "js_prop (getQuotationById_doc now ''q1'' stored_forwarded (JStr ''Unknown Equipment''))
          ''totalRent'' = JNum 0"
    and "js_prop (getQuotationById_doc now ''q1'' stored_forwarded (JStr ''Unknown Equipment''))
          ''workingHours'' = JNum 8"
    by (simp_all add: getQuotationById_doc_def lookup_def js_or_def stored_forwarded_def)
  moreover have "quotationDefaults sample_now sample_quotation = JObj stored_forwarded"
    by (simp add: quotationDefaults_def sample_quotation_def sample_now_def stored_forwarded_def
        lookup_def Let_def)
  ultimately show ?thesis using a b c e by simp
qed

lemma string_of_nat_1: "string_of_nat (Suc 0) = ''1''"
  by (simp add: string_of_nat.simps digit_char_def)

lemma stored_one_machine_lookups:
  "lookup stored_one_machine ''selectedMachines''
     = JArr [JObj [(''name'', JStr ''Crane A''), (''quantity'', JNum 1)]]"
  "lookup stored_one_machine ''selectedEquipment'' = JObj [(''name'', JStr ''Legacy crane'')]"
  by (simp_all add: stored_one_machine_def lookup_def)

text \<open>
  Claim C6. The claim asks, on every read path, for the single machine's own name when
  exactly one machine is stored. On a stored document with the one machine \<open>Crane A\<close>,
  \<^verbatim>\<open>getQuotationById\<close> returns \<open>Crane A\<close>, \<^verbatim>\<open>getQuotations\<close> returns
  \<open>1 machines selected\<close>, and \<^verbatim>\<open>getQuotationsForLead\<close> and \<^verbatim>\<open>getQuotationsForCustomer\<close>
  return the stored legacy name.
\<close>

theorem display_name_one_machine:
  "map (\<lambda>quotation. js_prop (js_prop quotation ''selectedEquipment'') ''name'')
       (getQuotations now [(''q1'', stored_one_machine)]) = [JStr ''1 machines selected'']
   \<and> (\<exists>quotation. getQuotationById now ''q1'' (Some stored_one_machine) = Inr quotation
        \<and> js_prop (js_prop quotation ''selectedEquipment'') ''name'' = JStr ''Crane A'')
   \<and> map (\<lambda>quotation. js_prop (js_prop quotation ''selectedEquipment'') ''name'')
       (getQuotationsForLead [(''q1'', stored_one_machine)]) = [JStr ''Legacy crane'']
   \<and> map (\<lambda>quotation. js_prop (js_prop quotation ''selectedEquipment'') ''name'')
       (getQuotationsForCustomer [(''q1'', stored_one_machine)]) = [JStr ''Legacy crane'']"
proof -
  have n: "getQuotations_name stored_one_machine = JStr ''1 machines selected''"
    by (simp add: getQuotations_name_def stored_one_machine_lookups length_gt_def
        length_text_def string_of_nat_1)
  have a: "map (\<lambda>quotation. js_prop (js_prop quotation ''selectedEquipment'') ''name'')
       (getQuotations now [(''q1'', stored_one_machine)]) = [JStr ''1 machines selected'']"
    by (simp add: getQuotations_def getQuotations_doc_def selectedEquipment_of_def lookup_def n)
  have m: "getQuotationById_name stored_one_machine = Inr (JStr ''Crane A'')"
    unfolding getQuotationById_name_def stored_one_machine_lookups
    by (simp add: length_gt_def js_or_def lookup_def)
  have "getQuotationById now ''q1'' (Some stored_one_machine)
          = Inr (getQuotationById_doc now ''q1'' stored_one_machine (JStr ''Crane A''))"
    by (simp add: getQuotationById_def m)
  moreover have "js_prop (js_prop (getQuotationById_doc now ''q1'' stored_one_machine (JStr ''Crane A''))
                   ''selectedEquipment'') ''name'' = JStr ''Crane A''"
    by (simp add: getQuotationById_doc_def selectedEquipment_of_def lookup_def)
  ultimately have b: "\<exists>quotation. getQuotationById now ''q1'' (Some stored_one_machine) = Inr quotation
        \<and> js_prop (js_prop quotation ''selectedEquipment'') ''name'' = JStr ''Crane A''"
    by simp
  have c: "map (\<lambda>quotation. js_prop (js_prop quotation ''selectedEquipment'') ''name'')
       (getQuotationsForLead [(''q1'', stored_one_machine)]) = [JStr ''Legacy crane'']"
    by (simp add: getQuotationsForLead_def stored_one_machine_def lookup_def)
  have d: "map (\<lambda>quotation. js_prop (js_prop quotation ''selectedEquipment'') ''name'')
       (getQuotationsForCustomer [(''q1'', stored_one_machine)]) = [JStr ''Legacy crane'']"
    by (simp add: getQuotationsForCustomer_def stored_one_machine_def lookup_def)
  from a b c d show ?thesis by simp
qed

lemma getQuotationById_name_rule:
  assumes "lookup data ''selectedMachines'' = JArr ms"
  shows "getQuotationById_name data =
     (if length ms > 1 then Inr (JStr (string_of_nat (length ms) @ '' machines selected''))
      else if length ms = 1 then js_get (hd ms) ''name''
      else Inr (js_or (js_prop (lookup data ''selectedEquipment'') ''name'') (JStr ''Unknown Equipment'')))"
  using assms
  by (cases ms) (simp_all add: getQuotationById_name_def js_or_def length_gt_def length_text_def Let_def)

lemma getQuotationById_name_absent:
  assumes "\<not> truthy (lookup data ''selectedMachines'')"
  shows "getQuotationById_name data =
      Inr (js_or (js_prop (lookup data ''selectedEquipment'') ''name'') (JStr ''Unknown Equipment''))"
  using assms
  by (simp add: getQuotationById_name_def js_or_def length_gt_def Let_def)

section \<open>Properties of the forwarding endpoints\<close>

lemma lookup_append:
  "lookup (kvs @ kvs') k = (case map_of (rev kvs') k of None \<Rightarrow> lookup kvs k | Some v \<Rightarrow> v)"
  by (simp add: lookup_def map_add_def split: option.splits)

lemma leadDefaults_obj:
  "js_prop (leadDefaults now (JObj kvs)) k =
     (if k = ''timestamp'' then js_or (js_prop (JObj kvs) k) now
      else if k = ''status'' then js_or (js_prop (JObj kvs) k) (JStr ''new'')
      else if k = ''source'' then js_or (js_prop (JObj kvs) k) (JStr ''AI Assistant'')
      else js_prop (JObj kvs) k)"
  by (simp add: leadDefaults_def Let_def js_or_def lookup_append)

lemma quotationDefaults_obj:
  "js_prop (quotationDefaults now (JObj kvs)) k =
     (if k = ''createdAt'' then js_or (js_prop (JObj kvs) k) now
      else if k = ''status'' then js_or (js_prop (JObj kvs) k) (JStr ''draft'')
      else js_prop (JObj kvs) k)"
  by (simp add: quotationDefaults_def Let_def js_or_def lookup_append)

lemma handleLeadSubmission_cases:
  assumes "truthy body"
  shows "(\<not> truthy (js_prop body ''customerName'') \<longrightarrow>
            handleLeadSubmission addDoc now body db =
              (\<lparr>status = 400,
                json = JObj [(''error'', JStr ''Missing required field: customerName'')]\<rparr>, db))
       \<and> (truthy (js_prop body ''customerName'') \<and> \<not> truthy (js_prop body ''equipmentNeeded'') \<longrightarrow>
            handleLeadSubmission addDoc now body db =
              (\<lparr>status = 400,
                json = JObj [(''error'', JStr ''Missing required field: equipmentNeeded'')]\<rparr>, db))
       \<and> (truthy (js_prop body ''customerName'') \<and> truthy (js_prop body ''equipmentNeeded'')
            \<and> \<not> truthy (js_prop body ''contactInfo'') \<longrightarrow>
            handleLeadSubmission addDoc now body db =
              (\<lparr>status = 400,
                json = JObj [(''error'', JStr ''Missing required field: contactInfo'')]\<rparr>, db))
       \<and> (truthy (js_prop body ''customerName'') \<and> truthy (js_prop body ''equipmentNeeded'')
            \<and> truthy (js_prop body ''contactInfo'') \<longrightarrow>
            (\<forall>docId db'. addDoc ''leads'' (leadDefaults now body) db = Inr (docId, db') \<longrightarrow>
               handleLeadSubmission addDoc now body db =
                 (\<lparr>status = 201,
                   json = JObj [(''success'', JBool True),
                                (''message'', JStr ''Lead created successfully''),
                                (''id'', JStr docId)]\<rparr>, db'))
            \<and> (\<forall>err. addDoc ''leads'' (leadDefaults now body) db = Inl err \<longrightarrow>
               handleLeadSubmission addDoc now body db =
                 (\<lparr>status = 500, json = JObj [(''error'', JStr ''Failed to create lead'')]\<rparr>, db))
            \<and> (\<forall>k. js_prop (leadDefaults now body) k =
                 (if k = ''timestamp'' then js_or (js_prop body k) now
                  else if k = ''status'' then js_or (js_prop body k) (JStr ''new'')
                  else if k = ''source'' then js_or (js_prop body k) (JStr ''AI Assistant'')
                  else js_prop body k)))"
proof (intro conjI impI allI)
  fix k
  assume "truthy (js_prop body ''customerName'') \<and> truthy (js_prop body ''equipmentNeeded'')
            \<and> truthy (js_prop body ''contactInfo'')"
  then obtain kvs where "body = JObj kvs"
    using truthy_js_prop_obj by blast
  then show "js_prop (leadDefaults now body) k =
                 (if k = ''timestamp'' then js_or (js_prop body k) now
                  else if k = ''status'' then js_or (js_prop body k) (JStr ''new'')
                  else if k = ''source'' then js_or (js_prop body k) (JStr ''AI Assistant'')
                  else js_prop body k)"
    by (simp only: leadDefaults_obj)
qed (use assms in \<open>simp_all add: handleLeadSubmission_def leadRequiredFields_def Let_def\<close>)

lemma handleQuotationSubmission_cases:
  assumes "truthy body"
  shows "(\<not> truthy (js_prop body ''leadId'') \<longrightarrow>
            handleQuotationSubmission addDoc now body db =
              (\<lparr>status = 400,
                json = JObj [(''error'', JStr ''Missing required field: leadId'')]\<rparr>, db))
       \<and> (truthy (js_prop body ''leadId'') \<and> \<not> truthy (js_prop body ''equipmentDetails'') \<longrightarrow>
            handleQuotationSubmission addDoc now body db =
              (\<lparr>status = 400,
                json = JObj [(''error'', JStr ''Missing required field: equipmentDetails'')]\<rparr>, db))
       \<and> (truthy (js_prop body ''leadId'') \<and> truthy (js_prop body ''equipmentDetails'')
            \<and> \<not> truthy (js_prop body ''totalPrice'') \<longrightarrow>
            handleQuotationSubmission addDoc now body db =
              (\<lparr>status = 400,
                json = JObj [(''error'', JStr ''Missing required field: totalPrice'')]\<rparr>, db))
       \<and> (truthy (js_prop body ''leadId'') \<and> truthy (js_prop body ''equipmentDetails'')
            \<and> truthy (js_prop body ''totalPrice'') \<longrightarrow>
            (\<forall>docId db'. addDoc ''quotations'' (quotationDefaults now body) db = Inr (docId, db') \<longrightarrow>
               handleQuotationSubmission addDoc now body db =
                 (\<lparr>status = 201,
                   json = JObj [(''success'', JBool True),
                                (''message'', JStr ''Quotation created successfully''),
                                (''id'', JStr docId)]\<rparr>, db'))
            \<and> (\<forall>err. addDoc ''quotations'' (quotationDefaults now body) db = Inl err \<longrightarrow>
               handleQuotationSubmission addDoc now body db =
                 (\<lparr>status = 500, json = JObj [(''error'', JStr ''Failed to create quotation'')]\<rparr>, db))
            \<and> (\<forall>k. js_prop (quotationDefaults now body) k =
                 (if k = ''createdAt'' then js_or (js_prop body k) now
                  else if k = ''status'' then js_or (js_prop body k) (JStr ''draft'')
                  else js_prop body k)))"
proof (intro conjI impI allI)
  fix k
  assume "truthy (js_prop body ''leadId'') \<and> truthy (js_prop body ''equipmentDetails'')
            \<and> truthy (js_prop body ''totalPrice'')"
  then obtain kvs where "body = JObj kvs"
    using truthy_js_prop_obj by blast
  then show "js_prop (quotationDefaults now body) k =
                 (if k = ''createdAt'' then js_or (js_prop body k) now
                  else if k = ''status'' then js_or (js_prop body k) (JStr ''draft'')
                  else js_prop body k)"
    by (simp only: quotationDefaults_obj)
qed (use assms in \<open>simp_all add: handleQuotationSubmission_def quotationRequiredFields_def Let_def\<close>)

lemma handlers_without_body:
  assumes "\<not> truthy body"
  shows "handleLeadSubmission addDoc now body db =
           (\<lparr>status = 400, json = JObj [(''error'', JStr ''Lead data is required'')]\<rparr>, db)"
    and "handleQuotationSubmission addDoc now body db =
           (\<lparr>status = 400, json = JObj [(''error'', JStr ''Quotation data is required'')]\<rparr>, db)"
  using assms by (simp_all add: handleLeadSubmission_def handleQuotationSubmission_def Let_def)

text \<open>
  Claim C9, as amended. A request without a body is answered 400 with
  \<open>Lead data is required\<close> or \<open>Quotation data is required\<close>, and nothing is written. For a
  request with a body, a required field is missing when it is absent or falsy; the first
  missing field in the order customerName, equipmentNeeded, contactInfo (leads) or leadId,
  equipmentDetails, totalPrice (quotations) is named in a 400 answer and the store is
  unchanged. When no required field is missing, the document handed to the store is the
  body with its falsy optional fields defaulted (leads: timestamp, status \<open>new\<close>, source
  \<open>AI Assistant\<close>; quotations: createdAt, status \<open>draft\<close>); the answer is 201 with the
  store's result when the store accepts the document, and 500 with the store unchanged
  when it fails.
\<close>

theorem forwarding_validation:
  "(\<not> truthy body \<longrightarrow>
      handleLeadSubmission addDoc now body db =
        (\<lparr>status = 400, json = JObj [(''error'', JStr ''Lead data is required'')]\<rparr>, db)
      \<and> handleQuotationSubmission addDoc now body db =
        (\<lparr>status = 400, json = JObj [(''error'', JStr ''Quotation data is required'')]\<rparr>, db))
   \<and> (truthy body \<longrightarrow>
      (\<not> truthy (js_prop body ''customerName'') \<longrightarrow>
         handleLeadSubmission addDoc now body db =
           (\<lparr>status = 400,
             json = JObj [(''error'', JStr ''Missing required field: customerName'')]\<rparr>, db))
      \<and> (truthy (js_prop body ''customerName'') \<and> \<not> truthy (js_prop body ''equipmentNeeded'') \<longrightarrow>
         handleLeadSubmission addDoc now body db =
           (\<lparr>status = 400,
             json = JObj [(''error'', JStr ''Missing required field: equipmentNeeded'')]\<rparr>, db))
      \<and> (truthy (js_prop body ''customerName'') \<and> truthy (js_prop body ''equipmentNeeded'')
           \<and> \<not> truthy (js_prop body ''contactInfo'') \<longrightarrow>
         handleLeadSubmission addDoc now body db =
           (\<lparr>status = 400,
             json = JObj [(''error'', JStr ''Missing required field: contactInfo'')]\<rparr>, db))
      \<and> (truthy (js_prop body ''customerName'') \<and> truthy (js_prop body ''equipmentNeeded'')
           \<and> truthy (js_prop body ''contactInfo'') \<longrightarrow>
         (\<forall>docId db'. addDoc ''leads'' (leadDefaults now body) db = Inr (docId, db') \<longrightarrow>
            handleLeadSubmission addDoc now body db =
              (\<lparr>status = 201,
                json = JObj [(''success'', JBool True),
                             (''message'', JStr ''Lead created successfully''),
                             (''id'', JStr docId)]\<rparr>, db'))
         \<and> (\<forall>err. addDoc ''leads'' (leadDefaults now body) db = Inl err \<longrightarrow>
            handleLeadSubmission addDoc now body db =
              (\<lparr>status = 500, json = JObj [(''error'', JStr ''Failed to create lead'')]\<rparr>, db))
         \<and> (\<forall>k. js_prop (leadDefaults now body) k =
              (if k = ''timestamp'' then js_or (js_prop body k) now
               else if k = ''status'' then js_or (js_prop body k) (JStr ''new'')
               else if k = ''source'' then js_or (js_prop body k) (JStr ''AI Assistant'')
               else js_prop body k)))
      \<and> (\<not> truthy (js_prop body ''leadId'') \<longrightarrow>
         handleQuotationSubmission addDoc now body db =
           (\<lparr>status = 400,
             json = JObj [(''error'', JStr ''Missing required field: leadId'')]\<rparr>, db))
      \<and> (truthy (js_prop body ''leadId'') \<and> \<not> truthy (js_prop body ''equipmentDetails'') \<longrightarrow>
         handleQuotationSubmission addDoc now body db =
           (\<lparr>status = 400,
             json = JObj [(''error'', JStr ''Missing required field: equipmentDetails'')]\<rparr>, db))
      \<and> (truthy (js_prop body ''leadId'') \<and> truthy (js_prop body ''equipmentDetails'')
           \<and> \<not> truthy (js_prop body ''totalPrice'') \<longrightarrow>
         handleQuotationSubmission addDoc now body db =
           (\<lparr>status = 400,
             json = JObj [(''error'', JStr ''Missing required field: totalPrice'')]\<rparr>, db))
      \<and> (truthy (js_prop body ''leadId'') \<and> truthy (js_prop body ''equipmentDetails'')
           \<and> truthy (js_prop body ''totalPrice'') \<longrightarrow>
         (\<forall>docId db'. addDoc ''quotations'' (quotationDefaults now body) db = Inr (docId, db') \<longrightarrow>
            handleQuotationSubmission addDoc now body db =
              (\<lparr>status = 201,
                json = JObj [(''success'', JBool True),
                             (''message'', JStr ''Quotation created successfully''),
                             (''id'', JStr docId)]\<rparr>, db'))
         \<and> (\<forall>err. addDoc ''quotations'' (quotationDefaults now body) db = Inl err \<longrightarrow>
            handleQuotationSubmission addDoc now body db =
              (\<lparr>status = 500,
                json = JObj [(''error'', JStr ''Failed to create quotation'')]\<rparr>, db))
         \<and> (\<forall>k. js_prop (quotationDefaults now body) k =
              (if k = ''createdAt'' then js_or (js_prop body k) now
               else if k = ''status'' then js_or (js_prop body k) (JStr ''draft'')
               else js_prop body k))))"
proof (intro conjI impI)
  assume "\<not> truthy body"
  then show "handleLeadSubmission addDoc now body db =
        (\<lparr>status = 400, json = JObj [(''error'', JStr ''Lead data is required'')]\<rparr>, db)"
    and "handleQuotationSubmission addDoc now body db =
        (\<lparr>status = 400, json = JObj [(''error'', JStr ''Quotation data is required'')]\<rparr>, db)"
    by (rule handlers_without_body)+
qed (use handleLeadSubmission_cases [of body addDoc now db]
      handleQuotationSubmission_cases [of body addDoc now db] in blast)+

lemma string_of_nat_0: "string_of_nat 0 = ''0''"
  by (simp add: string_of_nat.simps digit_char_def)

theorem forwarding_validation_witness:
  "handleLeadSubmission memory_addDoc sample_now lead_without_equipment [] =
     (\<lparr>status = 400,
       json = JObj [(''error'', JStr ''Missing required field: equipmentNeeded'')]\<rparr>, [])
   \<and> handleLeadSubmission memory_addDoc sample_now sample_lead [] =
     (\<lparr>status = 201,
       json = JObj [(''success'', JBool True), (''message'', JStr ''Lead created successfully''),
                    (''id'', JStr ''doc0'')]\<rparr>,
      [(''leads'', leadDefaults sample_now sample_lead)])
   \<and> js_prop (leadDefaults sample_now sample_lead) ''customerName'' = JStr ''Asha''
   \<and> js_prop (leadDefaults sample_now sample_lead) ''status'' = JStr ''hot''
   \<and> js_prop (leadDefaults sample_now sample_lead) ''source'' = JStr ''AI Assistant''
   \<and> js_prop (leadDefaults sample_now sample_lead) ''timestamp'' = sample_now
   \<and> handleQuotationSubmission memory_addDoc sample_now sample_quotation [] =
     (\<lparr>status = 201,
       json = JObj [(''success'', JBool True),
                    (''message'', JStr ''Quotation created successfully''),
                    (''id'', JStr ''doc0'')]\<rparr>,
      [(''quotations'', quotationDefaults sample_now sample_quotation)])
   \<and> js_prop (quotationDefaults sample_now sample_quotation) ''status'' = JStr ''draft''
   \<and> js_prop (quotationDefaults sample_now sample_quotation) ''createdAt'' = sample_now
   \<and> handleQuotationSubmission memory_addDoc sample_now Undefined [] =
     (\<lparr>status = 400, json = JObj [(''error'', JStr ''Quotation data is required'')]\<rparr>, [])"
proof -
  have l1: "truthy lead_without_equipment"
    "truthy (js_prop lead_without_equipment ''customerName'')"
    "\<not> truthy (js_prop lead_without_equipment ''equipmentNeeded'')"
    by (simp_all add: lead_without_equipment_def lookup_def)
  have l2: "truthy sample_lead" "truthy (js_prop sample_lead ''customerName'')"
    "truthy (js_prop sample_lead ''equipmentNeeded'')"
    "truthy (js_prop sample_lead ''contactInfo'')"
    "js_prop sample_lead ''customerName'' = JStr ''Asha''"
    "js_prop sample_lead ''status'' = JStr ''hot''"
    "js_prop sample_lead ''source'' = Undefined"
    "js_prop sample_lead ''timestamp'' = Undefined"
    by (simp_all add: sample_lead_def lookup_def)
  have l3: "truthy sample_quotation" "truthy (js_prop sample_quotation ''leadId'')"
    "truthy (js_prop sample_quotation ''equipmentDetails'')"
    "truthy (js_prop sample_quotation ''totalPrice'')"
    "js_prop sample_quotation ''status'' = Undefined"
    "js_prop sample_quotation ''createdAt'' = Undefined"
    by (simp_all add: sample_quotation_def lookup_def)
  have m: "memory_addDoc coll document [] = Inr (''doc0'', [(coll, document)])" for coll document
    by (simp add: memory_addDoc_def string_of_nat_0)
  note a = forwarding_validation [of lead_without_equipment memory_addDoc sample_now "[]"]
  note b = forwarding_validation [of sample_lead memory_addDoc sample_now "[]"]
  note c = forwarding_validation [of sample_quotation memory_addDoc sample_now "[]"]
  note d = forwarding_validation [of Undefined memory_addDoc sample_now "[]"]
  from a l1 have 1: "handleLeadSubmission memory_addDoc sample_now lead_without_equipment [] =
     (\<lparr>status = 400,
       json = JObj [(''error'', JStr ''Missing required field: equipmentNeeded'')]\<rparr>, [])"
    by blast
  from b l2(1-4) m have 2: "handleLeadSubmission memory_addDoc sample_now sample_lead [] =
     (\<lparr>status = 201,
       json = JObj [(''success'', JBool True), (''message'', JStr ''Lead created successfully''),
                    (''id'', JStr ''doc0'')]\<rparr>,
      [(''leads'', leadDefaults sample_now sample_lead)])"
    by blast
  from b l2(1-4) have 3: "js_prop (leadDefaults sample_now sample_lead) k =
              (if k = ''timestamp'' then js_or (js_prop sample_lead k) sample_now
               else if k = ''status'' then js_or (js_prop sample_lead k) (JStr ''new'')
               else if k = ''source'' then js_or (js_prop sample_lead k) (JStr ''AI Assistant'')
               else js_prop sample_lead k)" for k
    by blast
  from c l3(1-4) m have 4: "handleQuotationSubmission memory_addDoc sample_now sample_quotation [] =
     (\<lparr>status = 201,
       json = JObj [(''success'', JBool True),
                    (''message'', JStr ''Quotation created successfully''),
                    (''id'', JStr ''doc0'')]\<rparr>,
      [(''quotations'', quotationDefaults sample_now sample_quotation)])"
    by blast
  from c l3(1-4) have 5: "js_prop (quotationDefaults sample_now sample_quotation) k =
              (if k = ''createdAt'' then js_or (js_prop sample_quotation k) sample_now
               else if k = ''status'' then js_or (js_prop sample_quotation k) (JStr ''draft'')
               else js_prop sample_quotation k)" for k
    by blast
  from d have 6: "handleQuotationSubmission memory_addDoc sample_now Undefined [] =
     (\<lparr>status = 400, json = JObj [(''error'', JStr ''Quotation data is required'')]\<rparr>, [])"
    by simp
  show ?thesis
    using 1 2 4 6
    by (simp add: 3 5 l2 l3 js_or_def)
qed

text \<open>
  The claim as stated fails on two requests. Without a body all required fields are
  missing, and the 400 answer names none of them. With all three required fields of a
  quotation present and a \<^verbatim>\<open>totalPrice\<close> of 0, nothing is written: the price counts as
  missing.
\<close>

theorem forwarding_validation_counterexample:
  "\<not> truthy (js_prop Undefined ''customerName'')
   \<and> handleLeadSubmission memory_addDoc sample_now Undefined [] =
       (\<lparr>status = 400, json = JObj [(''error'', JStr ''Lead data is required'')]\<rparr>, [])
   \<and> json (fst (handleLeadSubmission memory_addDoc sample_now Undefined []))
       \<noteq> JObj [(''error'', JStr ''Missing required field: customerName'')]
   \<and> js_prop quotation_priced_zero ''leadId'' = JStr ''L1''
   \<and> js_prop quotation_priced_zero ''equipmentDetails'' = JStr ''crane''
   \<and> js_prop quotation_priced_zero ''totalPrice'' = JNum 0
   \<and> handleQuotationSubmission memory_addDoc sample_now quotation_priced_zero [] =
       (\<lparr>status = 400,
         json = JObj [(''error'', JStr ''Missing required field: totalPrice'')]\<rparr>, [])"
  by (simp add: handleLeadSubmission_def handleQuotationSubmission_def Let_def
      quotationRequiredFields_def quotation_priced_zero_def lookup_def)

end
